theory Spec2Isabelle
  imports Main "HOL-Library.Sublist"
begin

section \<open>Python values\<close>

text \<open>
  A Python \<open>str\<close> is a sequence of Unicode code points; \<open>py\<close> turns an ASCII
  literal into one.
\<close>

type_synonym pystr = "nat list"

definition py :: "string \<Rightarrow> pystr" where
  "py s = map of_char s"

text \<open>
  The values a provider response can hold: the ones a decoded JSON document is made of,
  and \<open>PObj c\<close>, an object of some other class named \<open>c\<close> that defines none of
  the operations the script applies (so it is truthy, cannot be multiplied and cannot be
  serialised). Python's \<open>float\<close> is the IEEE-754 binary64 of the runtime, which the
  script only tests for zero, multiplies by an \<open>int\<close> and prints: the float type is
  the parameter \<open>'f\<close> and these operations come with it, in a record.
  \<open>f_is_finite\<close> is \<open>math.isfinite\<close>; the script never asks, a statement about
  finite numbers does.
\<close>

datatype 'f pyval =
    PNone
  | PBool bool
  | PInt int
  | PFloat 'f
  | PStr pystr
  | PList "'f pyval list"
  | PDict "(pystr \<times> 'f pyval) list"
  | PObj pystr

record 'f float_ops =
  f_is_zero :: "'f \<Rightarrow> bool"
  f_mul :: "'f \<Rightarrow> int \<Rightarrow> 'f"
  f_json :: "'f \<Rightarrow> pystr"
  f_is_finite :: "'f \<Rightarrow> bool"

text \<open>
  The smallest runtime, whose only float is \<open>0.0\<close>; it serves the concrete runs on
  responses that hold no float.
\<close>

definition no_float :: "unit float_ops" where
  "no_float = \<lparr>f_is_zero = (\<lambda>_. True), f_mul = (\<lambda>x _. x), f_json = (\<lambda>_. py ''0.0''),
                f_is_finite = (\<lambda>_. True)\<rparr>"

text \<open>
  What the script can observe of an exception: whether its class derives from
  \<open>Exception\<close>, so that \<open>except Exception\<close> catches it (\<open>KeyboardInterrupt\<close>,
  \<open>SystemExit\<close> and \<open>GeneratorExit\<close> derive from \<open>BaseException\<close> only), and
  what \<open>str(e)\<close> gives.
\<close>

datatype exn = Exn (is_Exception: bool) (exn_str: pystr)

definition TypeError :: "pystr \<Rightarrow> exn" where
  "TypeError msg = Exn True msg"

definition KeyboardInterrupt :: exn where
  "KeyboardInterrupt = Exn False []"

text \<open>Truth value testing, as \<open>if x\<close> and \<open>x or y\<close> do it.\<close>

fun truthy :: "'f float_ops \<Rightarrow> 'f pyval \<Rightarrow> bool" where
  "truthy F PNone = False"
| "truthy F (PBool b) = b"
| "truthy F (PInt n) = (n \<noteq> 0)"
| "truthy F (PFloat x) = (\<not> f_is_zero F x)"
| "truthy F (PStr s) = (s \<noteq> [])"
| "truthy F (PList xs) = (xs \<noteq> [])"
| "truthy F (PDict kvs) = (kvs \<noteq> [])"
| "truthy F (PObj c) = True"

definition py_or :: "'f float_ops \<Rightarrow> 'f pyval \<Rightarrow> 'f pyval \<Rightarrow> 'f pyval" where
  "py_or F a b = (if truthy F a then a else b)"

text \<open>
  \<open>x * 100\<close>: arithmetic on numbers (a \<open>bool\<close> counts as 0 or 1), repetition on
  sequences, \<open>TypeError\<close> on \<open>None\<close>, on a \<open>dict\<close> and on an object without
  \<open>__mul__\<close>.
\<close>

definition unsupported_mul :: "pystr \<Rightarrow> exn" where
  "unsupported_mul t =
     TypeError
       (py ''unsupported operand type(s) for *: '' @ [39] @ t @ [39] @ py '' and ''
          @ [39] @ py ''int'' @ [39])"

fun py_mul100 :: "'f float_ops \<Rightarrow> 'f pyval \<Rightarrow> exn + 'f pyval" where
  "py_mul100 F PNone = Inl (unsupported_mul (py ''NoneType''))"
| "py_mul100 F (PBool b) = Inr (PInt ((if b then 1 else 0) * 100))"
| "py_mul100 F (PInt n) = Inr (PInt (n * 100))"
| "py_mul100 F (PFloat x) = Inr (PFloat (f_mul F x 100))"
| "py_mul100 F (PStr s) = Inr (PStr (concat (replicate 100 s)))"
| "py_mul100 F (PList xs) = Inr (PList (concat (replicate 100 xs)))"
| "py_mul100 F (PDict kvs) = Inl (unsupported_mul (py ''dict''))"
| "py_mul100 F (PObj c) = Inl (unsupported_mul c)"

section \<open>The field mapping of \<open>get_financial_data\<close>\<close>

text \<open>\<open>info\<close> is a \<open>dict\<close> keyed by strings; \<open>info.get(k)\<close> is \<open>None\<close> for a missing key.\<close>

type_synonym 'f info = "pystr \<rightharpoonup> 'f pyval"

definition info_get :: "'f info \<Rightarrow> pystr \<Rightarrow> 'f pyval" where
  "info_get info k = (case info k of None \<Rightarrow> PNone | Some v \<Rightarrow> v)"

text \<open>\<open>symbol if '.T' in symbol else f"{symbol}.T"\<close>\<close>

definition yahoo_symbol :: "pystr \<Rightarrow> pystr" where
  "yahoo_symbol symbol = (if sublist (py ''.T'') symbol then symbol else symbol @ py ''.T'')"

text \<open>\<open>info.get(k) * 100 if info.get(k) else None\<close>\<close>

definition percent :: "'f float_ops \<Rightarrow> 'f info \<Rightarrow> pystr \<Rightarrow> exn + 'f pyval" where
  "percent F info k =
     (if truthy F (info_get info k) then py_mul100 F (info_get info k) else Inr PNone)"

text \<open>
  The dict display evaluates its values in order; the first one that raises ends the
  evaluation with that exception.
\<close>

definition financial_data ::
  "'f float_ops \<Rightarrow> pystr \<Rightarrow> 'f info \<Rightarrow> exn + (pystr \<times> 'f pyval) list" where
  "financial_data F symbol info =
     (case percent F info (py ''dividendYield'') of Inl e \<Rightarrow> Inl e | Inr dividendYield \<Rightarrow>
     (case percent F info (py ''returnOnEquity'') of Inl e \<Rightarrow> Inl e | Inr roe \<Rightarrow>
     (case percent F info (py ''operatingMargins'') of Inl e \<Rightarrow> Inl e | Inr operatingMargin \<Rightarrow>
     (case percent F info (py ''profitMargins'') of Inl e \<Rightarrow> Inl e | Inr profitMargin \<Rightarrow>
      Inr [(py ''symbol'', PStr symbol),
           (py ''companyName'',
              py_or F (py_or F (info_get info (py ''longName'')) (info_get info (py ''shortName'')))
                (PStr symbol)),
           (py ''marketCap'', info_get info (py ''marketCap'')),
           (py ''per'', py_or F (info_get info (py ''trailingPE'')) (info_get info (py ''forwardPE''))),
           (py ''pbr'', info_get info (py ''priceToBook'')),
           (py ''eps'', info_get info (py ''trailingEps'')),
           (py ''dividendYield'', dividendYield),
           (py ''roe'', roe),
           (py ''debtToEquity'', info_get info (py ''debtToEquity'')),
           (py ''currentRatio'', info_get info (py ''currentRatio'')),
           (py ''operatingMargin'', operatingMargin),
           (py ''profitMargin'', profitMargin),
           (py ''revenue'', info_get info (py ''totalRevenue'')),
           (py ''netIncome'', info_get info (py ''netIncomeToCommon'')),
           (py ''totalAssets'', info_get info (py ''totalAssets'')),
           (py ''totalDebt'', info_get info (py ''totalDebt'')),
           (py ''shareholdersEquity'', info_get info (py ''totalStockholdersEquity''))]))))"

definition error_data :: "exn \<Rightarrow> pystr \<Rightarrow> (pystr \<times> 'f pyval) list" where
  "error_data e symbol =
     [(py ''error'', PBool True), (py ''message'', PStr (exn_str e)), (py ''symbol'', PStr symbol)]"

section \<open>\<open>json.dumps\<close>\<close>

text \<open>\<open>'{0:04x}'.format(n)\<close>: lower-case hexadecimal, padded with zeros to four digits.\<close>

definition hex_digit :: "nat \<Rightarrow> nat" where
  "hex_digit d = (if d < 10 then 48 + d else 87 + d)"

function hex_digits :: "nat \<Rightarrow> pystr" where
  "hex_digits n = (if n < 16 then [hex_digit n] else hex_digits (n div 16) @ [hex_digit (n mod 16)])"
  by pat_completeness auto
termination
  by (relation "measure id") auto

declare hex_digits.simps [simp del]

definition hex4 :: "nat \<Rightarrow> pystr" where
  "hex4 n = replicate (4 - length (hex_digits n)) 48 @ hex_digits n"

definition u_escape :: "nat \<Rightarrow> pystr" where
  "u_escape n = [92, 117] @ hex4 n"

text \<open>\<open>ESCAPE_DCT\<close>: the short escapes, then \<open>\\u00XX\<close> for the other control characters.\<close>

definition ESCAPE_DCT :: "nat \<Rightarrow> pystr option" where
  "ESCAPE_DCT c =
     (if c = 92 then Some [92, 92]
      else if c = 34 then Some [92, 34]
      else if c = 8 then Some [92, 98]
      else if c = 12 then Some [92, 102]
      else if c = 10 then Some [92, 110]
      else if c = 13 then Some [92, 114]
      else if c = 9 then Some [92, 116]
      else if c < 32 then Some (u_escape c)
      else None)"

text \<open>\<open>py_encode_basestring\<close>, used under \<open>ensure_ascii=False\<close>.\<close>

definition escape_char :: "nat \<Rightarrow> pystr" where
  "escape_char c =
     (if c < 32 \<or> c = 92 \<or> c = 34 then (case ESCAPE_DCT c of Some r \<Rightarrow> r | None \<Rightarrow> [c])
      else [c])"

definition encode_basestring :: "pystr \<Rightarrow> pystr" where
  "encode_basestring s = [34] @ concat (map escape_char s) @ [34]"

text \<open>
  \<open>py_encode_basestring_ascii\<close>, the default: everything outside \<open>' '..'~'\<close> is
  escaped too, code points from \<open>0x10000\<close> as a surrogate pair (\<open>0xd800\<close> and
  \<open>0xdc00\<close> have their low ten bits clear, so or-ing ten bits in adds them).
\<close>

definition escape_char_ascii :: "nat \<Rightarrow> pystr" where
  "escape_char_ascii c =
     (if c = 92 \<or> c = 34 \<or> \<not> (32 \<le> c \<and> c \<le> 126) then
        (case ESCAPE_DCT c of
           Some r \<Rightarrow> r
         | None \<Rightarrow>
             if c < 0x10000 then u_escape c
             else let n = c - 0x10000;
                      s1 = 0xd800 + (n div 1024) mod 1024;
                      s2 = 0xdc00 + n mod 1024
                  in u_escape s1 @ u_escape s2)
      else [c])"

definition encode_basestring_ascii :: "pystr \<Rightarrow> pystr" where
  "encode_basestring_ascii s = [34] @ concat (map escape_char_ascii s) @ [34]"

definition encode_str :: "bool \<Rightarrow> pystr \<Rightarrow> pystr" where
  "encode_str ensure_ascii s =
     (if ensure_ascii then encode_basestring_ascii s else encode_basestring s)"

text \<open>\<open>int.__repr__\<close>: decimal digits, with a minus sign for a negative number.\<close>

function dec_digits :: "nat \<Rightarrow> pystr" where
  "dec_digits n = (if n < 10 then [48 + n] else dec_digits (n div 10) @ [48 + n mod 10])"
  by pat_completeness auto
termination
  by (relation "measure id") auto

declare dec_digits.simps [simp del]

definition int_repr :: "int \<Rightarrow> pystr" where
  "int_repr i = (if i < 0 then [45] @ dec_digits (nat (- i)) else dec_digits (nat i))"

text \<open>\<open>', '.join(parts)\<close>\<close>

fun join :: "pystr \<Rightarrow> pystr list \<Rightarrow> pystr" where
  "join sep [] = []"
| "join sep [x] = x"
| "join sep (x # y # ys) = x @ sep @ join sep (y # ys)"

text \<open>The results of a list of calls, or the exception of the first one that raised.\<close>

fun collect :: "(exn + 'a) list \<Rightarrow> exn + 'a list" where
  "collect [] = Inr []"
| "collect (Inl e # rs) = Inl e"
| "collect (Inr x # rs) = (case collect rs of Inl e \<Rightarrow> Inl e | Inr xs \<Rightarrow> Inr (x # xs))"

definition not_serializable :: "pystr \<Rightarrow> exn" where
  "not_serializable c = TypeError (py ''Object of type '' @ c @ py '' is not JSON serializable'')"

text \<open>
  The encoder with its default separators \<open>', '\<close> and \<open>': '\<close>, no indentation and
  \<open>allow_nan=True\<close>; \<open>f_json\<close> is its \<open>floatstr\<close>. It raises \<open>TypeError\<close> at the
  first object it cannot serialise.
\<close>

fun json_dumps :: "'f float_ops \<Rightarrow> bool \<Rightarrow> 'f pyval \<Rightarrow> exn + pystr" where
  "json_dumps F ea PNone = Inr (py ''null'')"
| "json_dumps F ea (PBool b) = Inr (if b then py ''true'' else py ''false'')"
| "json_dumps F ea (PInt i) = Inr (int_repr i)"
| "json_dumps F ea (PFloat x) = Inr (f_json F x)"
| "json_dumps F ea (PStr s) = Inr (encode_str ea s)"
| "json_dumps F ea (PList xs) =
     (case collect (map (json_dumps F ea) xs) of
        Inl e \<Rightarrow> Inl e
      | Inr parts \<Rightarrow> Inr (py ''['' @ join (py '', '') parts @ py '']''))"
| "json_dumps F ea (PDict kvs) =
     (case collect (map (\<lambda>kv. case json_dumps F ea (snd kv) of
                                 Inl e \<Rightarrow> Inl e
                               | Inr t \<Rightarrow> Inr (encode_str ea (fst kv) @ py '': '' @ t)) kvs) of
        Inl e \<Rightarrow> Inl e
      | Inr parts \<Rightarrow> Inr (py ''{'' @ join (py '', '') parts @ py ''}''))"
| "json_dumps F ea (PObj c) = Inl (not_serializable c)"

section \<open>The script\<close>

text \<open>
  What the process does to the outside: the texts printed on each stream, one entry for
  each \<open>print\<close> call that wrote, and the symbols the provider was asked for.
  \<open>stdout_error\<close> is the exception that printing a text on standard output raises, if
  any: its encoder is strict, so a text that the stream's encoding cannot represent
  raises \<open>UnicodeEncodeError\<close> and nothing is written. Standard error escapes what it
  cannot encode (\<open>backslashreplace\<close>) and takes every text.
\<close>

record world =
  stdout :: "pystr list"
  stderr :: "pystr list"
  lookups :: "pystr list"
  stdout_error :: "pystr \<Rightarrow> exn option"

text \<open>Nothing printed or asked yet, and a standard output that takes every text.\<close>

definition quiet :: world where
  "quiet = \<lparr>stdout = [], stderr = [], lookups = [], stdout_error = (\<lambda>text. None)\<rparr>"

text \<open>
  \<open>yf.Ticker(yahoo_symbol).info\<close> is the provider: asked for a symbol, it raises or
  returns the \<open>info\<close> dict.
\<close>

type_synonym 'f provider = "pystr \<Rightarrow> exn + 'f info"

text \<open>
  The body of the \<open>try\<close> up to the moment \<open>print\<close> writes: the text to write, or the
  exception raised by the lookup, the field mapping, \<open>json.dumps\<close> or \<open>print\<close>.
\<close>

definition try_body :: "'f float_ops \<Rightarrow> 'f provider \<Rightarrow> pystr \<Rightarrow> world \<Rightarrow> exn + pystr" where
  "try_body F provider symbol w =
     (case provider (yahoo_symbol symbol) of
        Inl e \<Rightarrow> Inl e
      | Inr info \<Rightarrow>
          (case financial_data F symbol info of
             Inl e \<Rightarrow> Inl e
           | Inr fd \<Rightarrow>
               (case json_dumps F False (PDict fd) of
                  Inl e \<Rightarrow> Inl e
                | Inr text \<Rightarrow>
                    (case stdout_error w text of
                       Some e \<Rightarrow> Inl e
                     | None \<Rightarrow> Inr text))))"

text \<open>
  The function returns its status, or an exception leaves it: one that
  \<open>except Exception\<close> does not catch, or one raised inside the handler.
\<close>

definition get_financial_data ::
  "'f float_ops \<Rightarrow> 'f provider \<Rightarrow> pystr \<Rightarrow> world \<Rightarrow> (exn + int) \<times> world" where
  "get_financial_data F provider symbol w =
     (let w1 = w\<lparr>lookups := lookups w @ [yahoo_symbol symbol]\<rparr>
      in case try_body F provider symbol w of
           Inr text \<Rightarrow> (Inr 0, w1\<lparr>stdout := stdout w1 @ [text]\<rparr>)
         | Inl e \<Rightarrow>
             if is_Exception e then
               (case json_dumps F False (PDict (error_data e symbol)) of
                  Inl e' \<Rightarrow> (Inl e', w1)
                | Inr text \<Rightarrow> (Inr 1, w1\<lparr>stderr := stderr w1 @ [text]\<rparr>))
             else (Inl e, w1))"

definition usage :: pystr where
  "usage = [0x9298, 0x67c4, 0x30b3, 0x30fc, 0x30c9, 0x3092, 0x6307, 0x5b9a,
            0x3057, 0x3066, 0x304f, 0x3060, 0x3055, 0x3044]"

definition usage_error :: "(pystr \<times> 'f pyval) list" where
  "usage_error = [(py ''error'', PBool True), (py ''message'', PStr usage)]"

text \<open>
  The \<open>__main__\<close> block; \<open>argv\<close> is \<open>sys.argv\<close>, the script's name first. The
  result is the status given to \<open>sys.exit\<close>, or the exception that ends the process
  uncaught.
\<close>

definition main ::
  "'f float_ops \<Rightarrow> 'f provider \<Rightarrow> pystr list \<Rightarrow> world \<Rightarrow> (exn + int) \<times> world" where
  "main F provider argv w =
     (if length argv \<noteq> 2 then
        (case json_dumps F True (PDict usage_error) of
           Inl e \<Rightarrow> (Inl e, w)
         | Inr text \<Rightarrow> (Inr 1, w\<lparr>stderr := stderr w @ [text]\<rparr>))
      else get_financial_data F provider (argv ! 1) w)"

section \<open>Reading a record\<close>

text \<open>
  The value a record holds under a key, when a record was built at all. An output field
  is absent when it holds \<open>None\<close>, and so is a provider value (\<open>info.get\<close> gives
  \<open>None\<close> for a missing key).
\<close>

definition field :: "exn + (pystr \<times> 'f pyval) list \<Rightarrow> pystr \<Rightarrow> 'f pyval option" where
  "field r k = (case r of Inl e \<Rightarrow> None | Inr fd \<Rightarrow> map_of fd k)"

text \<open>
  The output fields that the dict display computes with the \<open>* 100\<close> expression, and the
  ones it copies from the provider, each with the provider key it reads.
\<close>

definition percent_fields :: "(pystr \<times> pystr) list" where
  "percent_fields =
     [(py ''dividendYield'', py ''dividendYield''), (py ''roe'', py ''returnOnEquity''),
      (py ''operatingMargin'', py ''operatingMargins''), (py ''profitMargin'', py ''profitMargins'')]"




text \<open>A provider that is interrupted from the keyboard during the lookup.\<close>

definition interrupted :: "'f provider" where
  "interrupted s = Inl KeyboardInterrupt"

section \<open>Facts about the field mapping\<close>

lemma financial_data_InrD:
  assumes "financial_data F symbol info = Inr fd"
  obtains dy roe om pm where
    "percent F info (py ''dividendYield'') = Inr dy"
    "percent F info (py ''returnOnEquity'') = Inr roe"
    "percent F info (py ''operatingMargins'') = Inr om"
    "percent F info (py ''profitMargins'') = Inr pm"
    "fd = [(py ''symbol'', PStr symbol),
           (py ''companyName'',
              py_or F (py_or F (info_get info (py ''longName'')) (info_get info (py ''shortName'')))
                (PStr symbol)),
           (py ''marketCap'', info_get info (py ''marketCap'')),
           (py ''per'', py_or F (info_get info (py ''trailingPE'')) (info_get info (py ''forwardPE''))),
           (py ''pbr'', info_get info (py ''priceToBook'')),
           (py ''eps'', info_get info (py ''trailingEps'')),
           (py ''dividendYield'', dy),
           (py ''roe'', roe),
           (py ''debtToEquity'', info_get info (py ''debtToEquity'')),
           (py ''currentRatio'', info_get info (py ''currentRatio'')),
           (py ''operatingMargin'', om),
           (py ''profitMargin'', pm),
           (py ''revenue'', info_get info (py ''totalRevenue'')),
           (py ''netIncome'', info_get info (py ''netIncomeToCommon'')),
           (py ''totalAssets'', info_get info (py ''totalAssets'')),
           (py ''totalDebt'', info_get info (py ''totalDebt'')),
           (py ''shareholdersEquity'', info_get info (py ''totalStockholdersEquity''))]"
  using assms unfolding financial_data_def
  by (auto split: sum.splits)

lemma py_mul100_not_None: "py_mul100 F v = Inr out \<Longrightarrow> out \<noteq> PNone"
  by (cases v) auto

lemma percent_Inr:
  assumes "percent F info k = Inr out"
  shows "(truthy F (info_get info k) \<longrightarrow> py_mul100 F (info_get info k) = Inr out)
       \<and> (out = PNone \<longleftrightarrow> \<not> truthy F (info_get info k))"
  using assms py_mul100_not_None [of F "info_get info k" out]
  by (auto simp: percent_def split: if_splits)

text \<open>Evaluating the model on a concrete response.\<close>

lemmas eval_simps =
  py_def info_get_def percent_def py_or_def financial_data_def field_def yahoo_symbol_def
  sublist_Cons_right

section \<open>The price/earnings ratio\<close>

text \<open>
  C4, as stated, fails: a trailing P/E of 0 is present in the response, and \<open>or\<close> passes
  over it as it passes over \<open>None\<close>, so \<open>per\<close> is the forward P/E.
\<close>

theorem per_trailing_zero_counterexample:
  "info_get (map_of [(py ''trailingPE'', PInt 0), (py ''forwardPE'', PInt 15)]) (py ''trailingPE'')
     = (PInt 0 :: unit pyval)
   \<and> field (financial_data no_float (py ''7203'')
        (map_of [(py ''trailingPE'', PInt 0), (py ''forwardPE'', PInt 15)])) (py ''per'')
     = Some (PInt 15)"
  by (simp add: eval_simps)

text \<open>
  C4, amended: \<open>per\<close> is the provider's trailing P/E when that value is present and
  truthy (not zero, not empty), and otherwise whatever the provider has as forward P/E,
  absent when it has nothing.
\<close>

theorem per_trailing_or_forward:
  assumes "financial_data F symbol info = Inr fd"
  shows "map_of fd (py ''per'') =
    Some (if truthy F (info_get info (py ''trailingPE'')) then info_get info (py ''trailingPE'')
          else info_get info (py ''forwardPE''))"
  using assms by (elim financial_data_InrD) (simp add: py_def py_or_def)

theorem per_trailing_or_forward_witness:
  "field (financial_data no_float (py ''7203'')
      (map_of [(py ''trailingPE'', PInt 10), (py ''forwardPE'', PInt 15)])) (py ''per'')
     = Some (PInt 10)
   \<and> field (financial_data no_float (py ''7203'') (map_of [(py ''forwardPE'', PInt 15)])) (py ''per'')
     = Some (PInt 15)
   \<and> field (financial_data no_float (py ''7203'') Map.empty) (py ''per'') = Some PNone"
proof -
  let ?a = "map_of [(py ''trailingPE'', PInt 10), (py ''forwardPE'', PInt 15 :: unit pyval)]"
  let ?b = "map_of [(py ''forwardPE'', PInt 15 :: unit pyval)]"
  let ?c = "Map.empty :: unit info"
  obtain fa where a: "financial_data no_float (py ''7203'') ?a = Inr fa"
    by (simp add: financial_data_def percent_def info_get_def py_def)
  obtain fb where b: "financial_data no_float (py ''7203'') ?b = Inr fb"
    by (simp add: financial_data_def percent_def info_get_def py_def)
  obtain fc where c: "financial_data no_float (py ''7203'') ?c = Inr fc"
    by (simp add: financial_data_def percent_def info_get_def py_def)
  show ?thesis
    unfolding field_def a b c sum.case
    using per_trailing_or_forward [OF a] per_trailing_or_forward [OF b]
      per_trailing_or_forward [OF c]
    by (simp add: info_get_def py_def)
qed

section \<open>The company name\<close>

text \<open>
  C5, as stated, fails: an empty long name is present in the response, and \<open>or\<close> passes
  over it, so \<open>companyName\<close> is the short name.
\<close>

theorem companyName_empty_long_counterexample:
  "info_get (map_of [(py ''longName'', PStr []), (py ''shortName'', PStr (py ''Toyota''))])
      (py ''longName'')
     = (PStr [] :: unit pyval)
   \<and> field (financial_data no_float (py ''7203'')
        (map_of [(py ''longName'', PStr []), (py ''shortName'', PStr (py ''Toyota''))]))
        (py ''companyName'')
     = Some (PStr (py ''Toyota''))"
  by (simp add: eval_simps)

text \<open>
  C5, amended: \<open>companyName\<close> is the provider's long name when that is present and
  truthy (not empty), otherwise the short name when that is present and truthy,
  otherwise the input symbol as given.
\<close>

theorem companyName_fallback:
  assumes "financial_data F symbol info = Inr fd"
  shows "map_of fd (py ''companyName'') =
    Some (if truthy F (info_get info (py ''longName'')) then info_get info (py ''longName'')
          else if truthy F (info_get info (py ''shortName'')) then info_get info (py ''shortName'')
          else PStr symbol)"
  using assms by (elim financial_data_InrD) (simp add: py_def py_or_def)

theorem companyName_fallback_witness:
  "field (financial_data no_float (py ''7203'')
      (map_of [(py ''longName'', PStr (py ''Toyota Motor Corp'')),
               (py ''shortName'', PStr (py ''Toyota''))])) (py ''companyName'')
     = Some (PStr (py ''Toyota Motor Corp''))
   \<and> field (financial_data no_float (py ''7203'')
      (map_of [(py ''shortName'', PStr (py ''Toyota''))])) (py ''companyName'')
     = Some (PStr (py ''Toyota''))
   \<and> field (financial_data no_float (py ''7203'') Map.empty) (py ''companyName'')
     = Some (PStr (py ''7203''))"
proof -
  let ?a = "map_of [(py ''longName'', PStr (py ''Toyota Motor Corp'')),
                    (py ''shortName'', PStr (py ''Toyota'') :: unit pyval)]"
  let ?b = "map_of [(py ''shortName'', PStr (py ''Toyota'') :: unit pyval)]"
  let ?c = "Map.empty :: unit info"
  obtain fa where a: "financial_data no_float (py ''7203'') ?a = Inr fa"
    by (simp add: financial_data_def percent_def info_get_def py_def)
  obtain fb where b: "financial_data no_float (py ''7203'') ?b = Inr fb"
    by (simp add: financial_data_def percent_def info_get_def py_def)
  obtain fc where c: "financial_data no_float (py ''7203'') ?c = Inr fc"
    by (simp add: financial_data_def percent_def info_get_def py_def)
  show ?thesis
    unfolding field_def a b c sum.case
    using companyName_fallback [OF a] companyName_fallback [OF b] companyName_fallback [OF c]
    by (simp add: info_get_def py_def)
qed

section \<open>The percentage fields\<close>

text \<open>
  C2, as stated, fails: a dividend yield of 0 is present in the response, and the guard
  \<open>if info.get('dividendYield')\<close> treats it as it treats \<open>None\<close>, so the output field
  is absent.
\<close>

theorem percent_zero_counterexample:
  "info_get (map_of [(py ''dividendYield'', PInt 0)]) (py ''dividendYield'') = (PInt 0 :: unit pyval)
   \<and> field (financial_data no_float (py ''7203'') (map_of [(py ''dividendYield'', PInt 0)]))
        (py ''dividendYield'')
     = Some PNone"
  by (simp add: eval_simps)

text \<open>
  C2, amended: in every record built, each percentage field is the provider's value times
  100 when that value is present and truthy (for a number: not zero), and the field is
  absent if and only if the provider's value is absent or falsy (zero).
\<close>

theorem percent_fields_scaled:
  assumes "financial_data F symbol info = Inr fd"
    and "(out, key) \<in> set percent_fields"
  shows "\<exists>v. map_of fd out = Some v
    \<and> (truthy F (info_get info key) \<longrightarrow> py_mul100 F (info_get info key) = Inr v)
    \<and> (\<forall>n. info_get info key = PInt n \<and> n \<noteq> 0 \<longrightarrow> v = PInt (n * 100))
    \<and> (\<forall>x. info_get info key = PFloat x \<and> \<not> f_is_zero F x \<longrightarrow> v = PFloat (f_mul F x 100))
    \<and> (v = PNone \<longleftrightarrow> \<not> truthy F (info_get info key))"
proof -
  have *: "\<exists>v. Some w = Some v
    \<and> (truthy F (info_get info k) \<longrightarrow> py_mul100 F (info_get info k) = Inr v)
    \<and> (\<forall>n. info_get info k = PInt n \<and> n \<noteq> 0 \<longrightarrow> v = PInt (n * 100))
    \<and> (\<forall>x. info_get info k = PFloat x \<and> \<not> f_is_zero F x \<longrightarrow> v = PFloat (f_mul F x 100))
    \<and> (v = PNone \<longleftrightarrow> \<not> truthy F (info_get info k))"
    if "percent F info k = Inr w" for k w
    using percent_Inr [OF that] by auto
  from assms(1) obtain dy roe om pm where p:
    "percent F info (py ''dividendYield'') = Inr dy"
    "percent F info (py ''returnOnEquity'') = Inr roe"
    "percent F info (py ''operatingMargins'') = Inr om"
    "percent F info (py ''profitMargins'') = Inr pm"
    and fd: "map_of fd (py ''dividendYield'') = Some dy" "map_of fd (py ''roe'') = Some roe"
      "map_of fd (py ''operatingMargin'') = Some om" "map_of fd (py ''profitMargin'') = Some pm"
    by (elim financial_data_InrD) (simp add: py_def)
  from assms(2) consider
      "out = py ''dividendYield''" "key = py ''dividendYield''"
    | "out = py ''roe''" "key = py ''returnOnEquity''"
    | "out = py ''operatingMargin''" "key = py ''operatingMargins''"
    | "out = py ''profitMargin''" "key = py ''profitMargins''"
    by (auto simp: percent_fields_def)
  then show ?thesis
  proof cases
    case 1 then show ?thesis using *[OF p(1)] fd(1) by simp
  next
    case 2 then show ?thesis using *[OF p(2)] fd(2) by simp
  next
    case 3 then show ?thesis using *[OF p(3)] fd(3) by simp
  next
    case 4 then show ?thesis using *[OF p(4)] fd(4) by simp
  qed
qed

theorem percent_fields_scaled_witness:
  "field (financial_data no_float (py ''7203'') (map_of [(py ''dividendYield'', PInt 3)]))
      (py ''dividendYield'') = Some (PInt 300)
   \<and> field (financial_data no_float (py ''7203'') (map_of [(py ''dividendYield'', PInt 3)]))
      (py ''roe'') = Some PNone"
proof -
  let ?a = "map_of [(py ''dividendYield'', PInt 3 :: unit pyval)]"
  obtain fa where a: "financial_data no_float (py ''7203'') ?a = Inr fa"
    by (simp add: financial_data_def percent_def info_get_def py_def)
  have m: "(py ''dividendYield'', py ''dividendYield'') \<in> set percent_fields"
    "(py ''roe'', py ''returnOnEquity'') \<in> set percent_fields"
    by (simp_all add: percent_fields_def)
  have i: "info_get ?a (py ''dividendYield'') = PInt 3" "info_get ?a (py ''returnOnEquity'') = PNone"
    by (simp_all add: info_get_def py_def)
  show ?thesis
    unfolding field_def a sum.case
    using percent_fields_scaled [OF a m(1)] percent_fields_scaled [OF a m(2)]
    unfolding i by auto
qed

section \<open>What a numeric field can hold\<close>







section \<open>The symbol asked of the provider\<close>

text \<open>
  C3, as stated, fails: \<open>7203.TO\<close> does not end with the suffix \<open>.T\<close>, yet nothing is
  appended to it, since the test is whether \<open>.T\<close> occurs anywhere in the symbol.
\<close>

theorem yahoo_symbol_suffix_counterexample:
  "\<not> suffix (py ''.T'') (py ''7203.TO'')
   \<and> yahoo_symbol (py ''7203.TO'') \<noteq> py ''7203.TO'' @ py ''.T''"
  by (simp add: yahoo_symbol_def py_def sublist_Cons_right suffix_def Cons_eq_append_conv
      append_eq_Cons_conv)

text \<open>
  C3, amended: for every input symbol in which \<open>.T\<close> occurs nowhere, the symbol asked
  of the provider is the input with \<open>.T\<close> appended; for every input symbol in which
  \<open>.T\<close> occurs, and so for every one that ends with \<open>.T\<close>, it is the input unchanged.
\<close>

theorem yahoo_symbol_contains:
  "(\<not> sublist (py ''.T'') symbol \<longrightarrow> yahoo_symbol symbol = symbol @ py ''.T'')
   \<and> (sublist (py ''.T'') symbol \<longrightarrow> yahoo_symbol symbol = symbol)
   \<and> (suffix (py ''.T'') symbol \<longrightarrow> yahoo_symbol symbol = symbol)"
  by (auto simp: yahoo_symbol_def dest: suffix_imp_sublist)

theorem yahoo_symbol_contains_witness:
  "\<not> sublist (py ''.T'') (py ''7203'') \<and> yahoo_symbol (py ''7203'') = py ''7203.T''
   \<and> sublist (py ''.T'') (py ''7203.TO'') \<and> yahoo_symbol (py ''7203.TO'') = py ''7203.TO''
   \<and> suffix (py ''.T'') (py ''7203.T'') \<and> yahoo_symbol (py ''7203.T'') = py ''7203.T''"
proof -
  have h: "\<not> sublist (py ''.T'') (py ''7203'')" "sublist (py ''.T'') (py ''7203.TO'')"
    by (simp_all add: py_def sublist_Cons_right)
  have s: "suffix (py ''.T'') (py ''7203.T'')"
    by (simp add: py_def suffix_def)
  show ?thesis
    using h s yahoo_symbol_contains [of "py ''7203''"] yahoo_symbol_contains [of "py ''7203.TO''"]
      yahoo_symbol_contains [of "py ''7203.T''"]
    by (simp add: py_def)
qed

section \<open>The exits of \<open>get_financial_data\<close>\<close>

lemma json_dumps_error_data:
  "json_dumps F ea (PDict (error_data e symbol)) =
     Inr (py ''{'' @ encode_str ea (py ''error'') @ py '': true, ''
          @ encode_str ea (py ''message'') @ py '': '' @ encode_str ea (exn_str e) @ py '', ''
          @ encode_str ea (py ''symbol'') @ py '': '' @ encode_str ea symbol @ py ''}'')"
  by (simp add: error_data_def py_def)

lemma json_dumps_usage_error:
  "json_dumps F ea (PDict usage_error) =
     Inr (py ''{'' @ encode_str ea (py ''error'') @ py '': true, ''
          @ encode_str ea (py ''message'') @ py '': '' @ encode_str ea usage @ py ''}'')"
  by (simp add: usage_error_def py_def)

lemma try_body_raise:
  assumes "provider (yahoo_symbol symbol) = Inl e
    \<or> (\<exists>info. provider (yahoo_symbol symbol) = Inr info \<and> financial_data F symbol info = Inl e)"
  shows "try_body F provider symbol w = Inl e"
  using assms by (auto simp: try_body_def)

lemma get_financial_data_caught:
  assumes "try_body F provider symbol w = Inl e" and "is_Exception e"
  shows "\<exists>text. json_dumps F False (PDict (error_data e symbol)) = Inr text
    \<and> get_financial_data F provider symbol w =
        (Inr 1, w\<lparr>lookups := lookups w @ [yahoo_symbol symbol], stderr := stderr w @ [text]\<rparr>)"
  using assms
  by (simp add: get_financial_data_def Let_def json_dumps_error_data del: json_dumps.simps)

lemma get_financial_data_uncaught:
  assumes "try_body F provider symbol w = Inl e" and "\<not> is_Exception e"
  shows "get_financial_data F provider symbol w =
    (Inl e, w\<lparr>lookups := lookups w @ [yahoo_symbol symbol]\<rparr>)"
  using assms by (simp add: get_financial_data_def Let_def)

lemma get_financial_data_return:
  assumes "try_body F provider symbol w = Inr text"
  shows "get_financial_data F provider symbol w =
    (Inr 0, w\<lparr>lookups := lookups w @ [yahoo_symbol symbol], stdout := stdout w @ [text]\<rparr>)"
  using assms by (simp add: get_financial_data_def Let_def)

lemma get_financial_data_status:
  "fst (get_financial_data F provider symbol w) = Inr 0 \<longleftrightarrow>
     (\<exists>text. try_body F provider symbol w = Inr text)"
  by (auto simp: get_financial_data_def Let_def json_dumps_error_data simp del: json_dumps.simps
      split: sum.splits)

lemma try_body_InrD:
  assumes "try_body F provider symbol w = Inr text"
  obtains info fd where "provider (yahoo_symbol symbol) = Inr info"
    "financial_data F symbol info = Inr fd" "json_dumps F False (PDict fd) = Inr text"
    "stdout_error w text = None"
  using assms by (auto simp: try_body_def split: sum.splits option.splits)

text \<open>
  What line 45 raises is raised inside the \<open>try\<close>: a record that \<open>json.dumps\<close> cannot
  serialise, or a text that standard output cannot encode, ends in the handler.
\<close>

lemma line_45_raise_is_caught:
  assumes "provider (yahoo_symbol symbol) = Inr info" and "financial_data F symbol info = Inr fd"
    and "json_dumps F False (PDict fd) = Inl e
      \<or> (\<exists>text. json_dumps F False (PDict fd) = Inr text \<and> stdout_error w text = Some e)"
    and "is_Exception e"
  shows "\<exists>text. get_financial_data F provider symbol w =
        (Inr 1, w\<lparr>lookups := lookups w @ [yahoo_symbol symbol], stderr := stderr w @ [text]\<rparr>)"
proof -
  have "try_body F provider symbol w = Inl e"
    using assms(1-3) by (auto simp: try_body_def)
  from get_financial_data_caught [OF this assms(4)] show ?thesis
    by blast
qed

text \<open>Evaluating the encoder on a concrete value.\<close>

lemmas json_simps =
  encode_str_def encode_basestring_def encode_basestring_ascii_def escape_char_def
  escape_char_ascii_def ESCAPE_DCT_def u_escape_def hex4_def hex_digits.simps hex_digit_def
  int_repr_def dec_digits.simps error_data_def usage_error_def usage_def py_def

text \<open>
  C1, as stated, fails: \<open>except Exception\<close> does not catch an exception whose class
  derives from \<open>BaseException\<close> only. When the lookup is interrupted from the keyboard the
  exception leaves the function: no status is returned and nothing is printed.
\<close>

theorem interrupted_lookup_counterexample:
  "get_financial_data no_float interrupted (py ''7203'') quiet
     = (Inl KeyboardInterrupt, quiet\<lparr>lookups := [py ''7203.T'']\<rparr>)
   \<and> stderr (snd (get_financial_data no_float interrupted (py ''7203'') quiet)) = []"
  by (simp add: get_financial_data_def try_body_def interrupted_def KeyboardInterrupt_def
      quiet_def yahoo_symbol_def py_def sublist_Cons_right)

text \<open>
  C1, amended: whenever the provider lookup or the field mapping raises an exception that
  is an instance of \<open>Exception\<close>, the call returns 1, prints one text on standard error,
  the encoding of \<open>{error: true, message: str(e), symbol}\<close> with the input symbol, and
  prints nothing on standard output.
\<close>

theorem failure_emits_one_error_record:
  assumes "is_Exception e"
    and "provider (yahoo_symbol symbol) = Inl e
      \<or> (\<exists>info. provider (yahoo_symbol symbol) = Inr info \<and> financial_data F symbol info = Inl e)"
  shows "\<exists>text.
      json_dumps F False
        (PDict [(py ''error'', PBool True), (py ''message'', PStr (exn_str e)),
                (py ''symbol'', PStr symbol)]) = Inr text
    \<and> get_financial_data F provider symbol w =
        (Inr 1, w\<lparr>lookups := lookups w @ [yahoo_symbol symbol], stderr := stderr w @ [text]\<rparr>)
    \<and> stdout (snd (get_financial_data F provider symbol w)) = stdout w"
proof -
  have "try_body F provider symbol w = Inl e"
    using assms(2) by (rule try_body_raise)
  from get_financial_data_caught [OF this assms(1)] show ?thesis
    by (auto simp: error_data_def simp del: json_dumps.simps)
qed

theorem failure_emits_one_error_record_witness:
  "get_financial_data no_float (\<lambda>s. Inl (Exn True (py ''not found''))) (py ''9999.T'') quiet
     = (Inr 1,
        quiet\<lparr>lookups := [py ''9999.T''],
              stderr := [py ''{'' @ [34] @ py ''error'' @ [34] @ py '': true, ''
                          @ [34] @ py ''message'' @ [34] @ py '': '' @ [34] @ py ''not found'' @ [34]
                          @ py '', '' @ [34] @ py ''symbol'' @ [34] @ py '': ''
                          @ [34] @ py ''9999.T'' @ [34] @ py ''}'']\<rparr>)
   \<and> (\<exists>text. get_financial_data no_float
        (\<lambda>s. Inr (map_of [(py ''dividendYield'', PDict [(py ''raw'', PInt 3)])])) (py ''7203'') quiet
     = (Inr 1, quiet\<lparr>lookups := [py ''7203.T''], stderr := [text]\<rparr>)
      \<and> json_dumps no_float False
           (PDict [(py ''error'', PBool True),
                   (py ''message'', PStr (exn_str (unsupported_mul (py ''dict'')))),
                   (py ''symbol'', PStr (py ''7203''))]) = Inr text)"
proof -
  define p1 :: "unit provider" where "p1 = (\<lambda>s. Inl (Exn True (py ''not found'')))"
  define a :: "unit info" where "a = map_of [(py ''dividendYield'', PDict [(py ''raw'', PInt 3)])]"
  define p2 :: "unit provider" where "p2 = (\<lambda>s. Inr a)"
  have e: "is_Exception (Exn True (py ''not found''))" "is_Exception (unsupported_mul (py ''dict''))"
    by (simp_all add: unsupported_mul_def TypeError_def)
  have h1: "p1 (yahoo_symbol (py ''9999.T'')) = Inl (Exn True (py ''not found''))
    \<or> (\<exists>info. p1 (yahoo_symbol (py ''9999.T'')) = Inr info
         \<and> financial_data no_float (py ''9999.T'') info = Inl (Exn True (py ''not found'')))"
    by (simp add: p1_def)
  have h2: "p2 (yahoo_symbol (py ''7203'')) = Inl (unsupported_mul (py ''dict''))
    \<or> (\<exists>info. p2 (yahoo_symbol (py ''7203'')) = Inr info
         \<and> financial_data no_float (py ''7203'') info = Inl (unsupported_mul (py ''dict'')))"
    by (simp add: p2_def a_def financial_data_def percent_def info_get_def py_def)
  have y: "yahoo_symbol (py ''9999.T'') = py ''9999.T''" "yahoo_symbol (py ''7203'') = py ''7203.T''"
    by (simp_all add: yahoo_symbol_def py_def sublist_Cons_right)
  have "get_financial_data no_float p1 (py ''9999.T'') quiet
     = (Inr 1,
        quiet\<lparr>lookups := [py ''9999.T''],
              stderr := [py ''{'' @ [34] @ py ''error'' @ [34] @ py '': true, ''
                          @ [34] @ py ''message'' @ [34] @ py '': '' @ [34] @ py ''not found'' @ [34]
                          @ py '', '' @ [34] @ py ''symbol'' @ [34] @ py '': ''
                          @ [34] @ py ''9999.T'' @ [34] @ py ''}'']\<rparr>)"
    using failure_emits_one_error_record [where provider = p1 and symbol = "py ''9999.T''"
        and e = "Exn True (py ''not found'')" and F = no_float and w = quiet, OF e(1) h1]
    unfolding y by (auto simp: quiet_def json_simps)
  moreover have "\<exists>text. get_financial_data no_float p2 (py ''7203'') quiet
     = (Inr 1, quiet\<lparr>lookups := [py ''7203.T''], stderr := [text]\<rparr>)
      \<and> json_dumps no_float False
           (PDict [(py ''error'', PBool True),
                   (py ''message'', PStr (exn_str (unsupported_mul (py ''dict'')))),
                   (py ''symbol'', PStr (py ''7203''))]) = Inr text"
    using failure_emits_one_error_record [where provider = p2 and symbol = "py ''7203''"
        and e = "unsupported_mul (py ''dict'')" and F = no_float and w = quiet, OF e(2) h2]
    unfolding y by (auto simp: quiet_def)
  ultimately show ?thesis
    unfolding p1_def p2_def a_def by blast
qed

text \<open>
  C10: when the provider raises, the provider was asked for \<open>yahoo_symbol symbol\<close>, which
  is the input with \<open>.T\<close> appended when \<open>.T\<close> does not occur in it, and the record
  printed on standard error carries the symbol as it was given on the command line. That
  record is printed when \<open>except Exception\<close> catches the exception; otherwise nothing is.
\<close>

theorem error_record_symbol_is_input:
  assumes "provider (yahoo_symbol symbol) = Inl e"
  shows "lookups (snd (get_financial_data F provider symbol w)) = lookups w @ [yahoo_symbol symbol]
    \<and> (\<not> sublist (py ''.T'') symbol \<longrightarrow>
         lookups (snd (get_financial_data F provider symbol w)) = lookups w @ [symbol @ py ''.T''])
    \<and> map_of (error_data e symbol :: (pystr \<times> 'f pyval) list) (py ''symbol'') = Some (PStr symbol)
    \<and> (if is_Exception e
        then \<exists>text. json_dumps F False (PDict (error_data e symbol)) = Inr text
               \<and> stderr (snd (get_financial_data F provider symbol w)) = stderr w @ [text]
        else stderr (snd (get_financial_data F provider symbol w)) = stderr w)"
proof -
  have t: "try_body F provider symbol w = Inl e"
    using assms by (simp add: try_body_def)
  have m: "map_of (error_data e symbol :: (pystr \<times> 'f pyval) list) (py ''symbol'') = Some (PStr symbol)"
    by (simp add: error_data_def py_def)
  show ?thesis
  proof (cases "is_Exception e")
    case True
    from get_financial_data_caught [OF t True] m True show ?thesis
      by (auto simp: yahoo_symbol_def simp del: json_dumps.simps)
  next
    case False
    from get_financial_data_uncaught [OF t False] m False show ?thesis
      by (simp add: yahoo_symbol_def del: json_dumps.simps)
  qed
qed

theorem error_record_symbol_is_input_witness:
  "stderr (snd (get_financial_data no_float (\<lambda>s. Inl (Exn True (py ''not found'')))
      (py ''7203'') quiet))
     = [py ''{'' @ [34] @ py ''error'' @ [34] @ py '': true, ''
          @ [34] @ py ''message'' @ [34] @ py '': '' @ [34] @ py ''not found'' @ [34]
          @ py '', '' @ [34] @ py ''symbol'' @ [34] @ py '': ''
          @ [34] @ py ''7203'' @ [34] @ py ''}'']
   \<and> lookups (snd (get_financial_data no_float (\<lambda>s. Inl (Exn True (py ''not found'')))
      (py ''7203'') quiet))
     = [py ''7203.T'']"
proof -
  define p1 :: "unit provider" where "p1 = (\<lambda>s. Inl (Exn True (py ''not found'')))"
  have h: "p1 (yahoo_symbol (py ''7203'')) = Inl (Exn True (py ''not found''))"
    by (simp add: p1_def)
  have n: "\<not> sublist (py ''.T'') (py ''7203'')"
    by (simp add: py_def sublist_Cons_right)
  have "stderr (snd (get_financial_data no_float p1 (py ''7203'') quiet))
     = [py ''{'' @ [34] @ py ''error'' @ [34] @ py '': true, ''
          @ [34] @ py ''message'' @ [34] @ py '': '' @ [34] @ py ''not found'' @ [34]
          @ py '', '' @ [34] @ py ''symbol'' @ [34] @ py '': ''
          @ [34] @ py ''7203'' @ [34] @ py ''}'']
   \<and> lookups (snd (get_financial_data no_float p1 (py ''7203'') quiet)) = [py ''7203.T'']"
    using error_record_symbol_is_input [where provider = p1 and symbol = "py ''7203''"
        and e = "Exn True (py ''not found'')" and F = no_float and w = quiet, OF h] n
    by (auto simp: quiet_def json_simps yahoo_symbol_def sublist_Cons_right)
  then show ?thesis
    unfolding p1_def .
qed

text \<open>
  C7: when the call returns 0, the provider returned a response from which a record was
  built, the encoding of that record is what standard output received, and its
  \<open>symbol\<close> field is the input as given, whatever symbol the provider was asked for.
\<close>

theorem financial_record_symbol_is_input:
  assumes "fst (get_financial_data F provider symbol w) = Inr 0"
  shows "\<exists>info fd text. provider (yahoo_symbol symbol) = Inr info
    \<and> financial_data F symbol info = Inr fd
    \<and> json_dumps F False (PDict fd) = Inr text
    \<and> snd (get_financial_data F provider symbol w)
        = w\<lparr>lookups := lookups w @ [yahoo_symbol symbol], stdout := stdout w @ [text]\<rparr>
    \<and> map_of fd (py ''symbol'') = Some (PStr symbol)"
proof -
  from assms obtain printed where t: "try_body F provider symbol w = Inr printed"
    unfolding get_financial_data_status by blast
  then obtain info fd where
    i: "provider (yahoo_symbol symbol) = Inr info" and f: "financial_data F symbol info = Inr fd"
    and j: "json_dumps F False (PDict fd) = Inr printed"
    by (rule try_body_InrD)
  have "map_of fd (py ''symbol'') = Some (PStr symbol)"
    using f by (elim financial_data_InrD) (simp add: py_def)
  with i f j get_financial_data_return [OF t] show ?thesis
    by (auto simp del: json_dumps.simps)
qed

theorem financial_record_symbol_is_input_witness:
  "\<exists>fd text. get_financial_data no_float
        (\<lambda>s. Inr (map_of [(py ''longName'', PStr (py ''Toyota Motor Corp''))])) (py ''7203'') quiet
      = (Inr 0, quiet\<lparr>lookups := [py ''7203.T''], stdout := [text]\<rparr>)
    \<and> json_dumps no_float False (PDict fd) = Inr text
    \<and> map_of fd (py ''symbol'') = Some (PStr (py ''7203''))"
proof -
  define a :: "unit info" where "a = map_of [(py ''longName'', PStr (py ''Toyota Motor Corp''))]"
  define p :: "unit provider" where "p = (\<lambda>s. Inr a)"
  have y: "yahoo_symbol (py ''7203'') = py ''7203.T''"
    by (simp add: yahoo_symbol_def py_def sublist_Cons_right)
  have "\<exists>text. try_body no_float p (py ''7203'') quiet = Inr text"
    by (simp add: try_body_def p_def a_def financial_data_def percent_def info_get_def py_def
        py_or_def quiet_def)
  then have h: "fst (get_financial_data no_float p (py ''7203'') quiet) = Inr 0"
    unfolding get_financial_data_status .
  from financial_record_symbol_is_input [OF h] obtain fd printed where
    "json_dumps no_float False (PDict fd) = Inr printed"
    "snd (get_financial_data no_float p (py ''7203'') quiet)
        = quiet\<lparr>lookups := lookups quiet @ [yahoo_symbol (py ''7203'')],
               stdout := stdout quiet @ [printed]\<rparr>"
    "map_of fd (py ''symbol'') = Some (PStr (py ''7203''))"
    by blast
  with h have "get_financial_data no_float p (py ''7203'') quiet
      = (Inr 0, quiet\<lparr>lookups := [py ''7203.T''], stdout := [printed]\<rparr>)
    \<and> json_dumps no_float False (PDict fd) = Inr printed
    \<and> map_of fd (py ''symbol'') = Some (PStr (py ''7203''))"
    unfolding y
    by (cases "get_financial_data no_float p (py ''7203'') quiet")
      (simp add: quiet_def del: json_dumps.simps)
  then show ?thesis
    unfolding p_def a_def by blast
qed

section \<open>The command line\<close>

text \<open>
  C6: called with no argument or with two or more, the script exits with status 1 after
  printing on standard error the encoding of \<open>{error: true, message: usage}\<close>, an object
  with no \<open>symbol\<close> key; the provider is not asked anything and standard output receives
  nothing.
\<close>

theorem wrong_argument_count:
  assumes "length args \<noteq> 1"
  shows "\<exists>text.
      json_dumps F True (PDict [(py ''error'', PBool True), (py ''message'', PStr usage)]) = Inr text
    \<and> main F provider (script # args) w = (Inr 1, w\<lparr>stderr := stderr w @ [text]\<rparr>)
    \<and> lookups (snd (main F provider (script # args) w)) = lookups w
    \<and> stdout (snd (main F provider (script # args) w)) = stdout w
    \<and> map_of [(py ''error'', PBool True), (py ''message'', PStr usage :: 'f pyval)] (py ''symbol'')
        = None"
  using assms json_dumps_usage_error [of F True]
  by (simp add: main_def usage_error_def py_def)

theorem wrong_argument_count_witness:
  "\<exists>text.
     json_dumps no_float True (PDict [(py ''error'', PBool True), (py ''message'', PStr usage)])
       = Inr text
   \<and> main no_float (\<lambda>s. Inr Map.empty) [py ''fetch_financials.py''] quiet
     = (Inr 1, quiet\<lparr>stderr := [text]\<rparr>)
   \<and> main no_float (\<lambda>s. Inr Map.empty) [py ''fetch_financials.py'', py ''7203'', py ''6758''] quiet
     = (Inr 1, quiet\<lparr>stderr := [text]\<rparr>)"
proof -
  define p :: "unit provider" where "p = (\<lambda>s. Inr Map.empty)"
  have h: "length ([] :: pystr list) \<noteq> 1" "length [py ''7203'', py ''6758''] \<noteq> 1"
    by simp_all
  have s: "stderr quiet = []"
    by (simp add: quiet_def)
  from wrong_argument_count [OF h(1), of no_float p "py ''fetch_financials.py''" quiet]
    wrong_argument_count [OF h(2), of no_float p "py ''fetch_financials.py''" quiet]
  have "\<exists>text.
     json_dumps no_float True (PDict [(py ''error'', PBool True), (py ''message'', PStr usage)])
       = Inr text
   \<and> main no_float p [py ''fetch_financials.py''] quiet = (Inr 1, quiet\<lparr>stderr := [text]\<rparr>)
   \<and> main no_float p [py ''fetch_financials.py'', py ''7203'', py ''6758''] quiet
     = (Inr 1, quiet\<lparr>stderr := [text]\<rparr>)"
    unfolding s by (auto simp del: json_dumps.simps)
  then show ?thesis
    unfolding p_def .
qed

text \<open>
  C9 does not hold of the usage message. The two \<open>print\<close> calls of
  \<open>get_financial_data\<close> pass \<open>ensure_ascii=False\<close>; the one of the \<open>__main__\<close> block
  does not, so the script run without an argument prints its Japanese message as
  \<open>\\uXXXX\<close> escapes: the text below, all ASCII. With the flag it would have been the
  second text, the message itself between the quotes.
\<close>

theorem usage_message_is_escaped:
  "main no_float (\<lambda>s. Inr Map.empty) [py ''fetch_financials.py''] quiet
     = (Inr 1,
        quiet\<lparr>stderr := [py ''{'' @ [34] @ py ''error'' @ [34] @ py '': true, ''
                        @ [34] @ py ''message'' @ [34] @ py '': '' @ [34]
                        @ [92] @ py ''u9298'' @ [92] @ py ''u67c4'' @ [92] @ py ''u30b3''
                        @ [92] @ py ''u30fc'' @ [92] @ py ''u30c9'' @ [92] @ py ''u3092''
                        @ [92] @ py ''u6307'' @ [92] @ py ''u5b9a'' @ [92] @ py ''u3057''
                        @ [92] @ py ''u3066'' @ [92] @ py ''u304f'' @ [92] @ py ''u3060''
                        @ [92] @ py ''u3055'' @ [92] @ py ''u3044''
                        @ [34] @ py ''}'']\<rparr>)
   \<and> json_dumps no_float False (PDict [(py ''error'', PBool True), (py ''message'', PStr usage)])
     = Inr (py ''{'' @ [34] @ py ''error'' @ [34] @ py '': true, ''
         @ [34] @ py ''message'' @ [34] @ py '': '' @ [34] @ usage @ [34] @ py ''}'')"
  by (simp add: main_def quiet_def json_simps)


end
